theory Spec2Isabelle
  imports Main
begin

section \<open>Python strings\<close>

text \<open>
  A Python \<open>str\<close> is modelled as a \<^typ>\<open>string\<close>, one \<^typ>\<open>char\<close> per code point, which
  covers the code points 0 to 255. The character classes below are the ones Python 3 uses
  on that range: \<open>str.strip\<close> without argument removes the characters of \<open>whitespace\<close>,
  \<open>str.lower\<close> maps \<open>uppercase\<close> to \<open>lowercase\<close> position by position, and the pattern
  \<open>\w\<close> of \<open>re\<close> accepts letters, digits and the underscore.
\<close>

definition NL :: char where
  "NL = CHR 0x0A"

definition whitespace :: "char list" where
  "whitespace = [CHR 0x09, CHR 0x0A, CHR 0x0B, CHR 0x0C, CHR 0x0D, CHR 0x1C, CHR 0x1D,
     CHR 0x1E, CHR 0x1F, CHR 0x20, CHR 0x85, CHR 0xA0]"

definition is_space :: "char \<Rightarrow> bool" where
  "is_space c = (c \<in> set whitespace)"

definition uppercase :: "char list" where
  "uppercase = ''ABCDEFGHIJKLMNOPQRSTUVWXYZ'' @
     [CHR 0xC0, CHR 0xC1, CHR 0xC2, CHR 0xC3, CHR 0xC4, CHR 0xC5, CHR 0xC6, CHR 0xC7,
      CHR 0xC8, CHR 0xC9, CHR 0xCA, CHR 0xCB, CHR 0xCC, CHR 0xCD, CHR 0xCE, CHR 0xCF,
      CHR 0xD0, CHR 0xD1, CHR 0xD2, CHR 0xD3, CHR 0xD4, CHR 0xD5, CHR 0xD6,
      CHR 0xD8, CHR 0xD9, CHR 0xDA, CHR 0xDB, CHR 0xDC, CHR 0xDD, CHR 0xDE]"

definition lowercase :: "char list" where
  "lowercase = ''abcdefghijklmnopqrstuvwxyz'' @
     [CHR 0xE0, CHR 0xE1, CHR 0xE2, CHR 0xE3, CHR 0xE4, CHR 0xE5, CHR 0xE6, CHR 0xE7,
      CHR 0xE8, CHR 0xE9, CHR 0xEA, CHR 0xEB, CHR 0xEC, CHR 0xED, CHR 0xEE, CHR 0xEF,
      CHR 0xF0, CHR 0xF1, CHR 0xF2, CHR 0xF3, CHR 0xF4, CHR 0xF5, CHR 0xF6,
      CHR 0xF8, CHR 0xF9, CHR 0xFA, CHR 0xFB, CHR 0xFC, CHR 0xFD, CHR 0xFE]"

definition other_word_chars :: "char list" where
  "other_word_chars = ''0123456789_'' @
     [CHR 0xAA, CHR 0xB2, CHR 0xB3, CHR 0xB5, CHR 0xB9, CHR 0xBA, CHR 0xBC, CHR 0xBD,
      CHR 0xBE, CHR 0xDF, CHR 0xFF]"

definition is_word :: "char \<Rightarrow> bool" where
  "is_word c = (c \<in> set uppercase \<or> c \<in> set lowercase \<or> c \<in> set other_word_chars)"

definition lower_char :: "char \<Rightarrow> char" where
  "lower_char c = (case map_of (zip uppercase lowercase) c of Some l \<Rightarrow> l | None \<Rightarrow> c)"

text \<open>\<open>s.lower()\<close>\<close>

definition lower :: "string \<Rightarrow> string" where
  "lower s = map lower_char s"

text \<open>\<open>s.strip()\<close>\<close>

definition strip :: "string \<Rightarrow> string" where
  "strip s = rev (dropWhile is_space (rev (dropWhile is_space s)))"

text \<open>\<open>s.startswith(p)\<close>\<close>

fun startswith :: "string \<Rightarrow> string \<Rightarrow> bool" where
  "startswith s [] = True"
| "startswith [] (p # ps) = False"
| "startswith (c # cs) (p # ps) = (c = p \<and> startswith cs ps)"

text \<open>\<open>sub in s\<close>\<close>

fun str_in :: "string \<Rightarrow> string \<Rightarrow> bool" where
  "str_in sub [] = (sub = [])"
| "str_in sub (c # cs) = (startswith (c # cs) sub \<or> str_in sub cs)"

text \<open>\<open>s.find(sub)\<close>, with \<open>None\<close> for Python's \<open>-1\<close>\<close>

fun find_sub :: "string \<Rightarrow> string \<Rightarrow> nat option" where
  "find_sub sub [] = (if sub = [] then Some 0 else None)"
| "find_sub sub (c # cs) =
     (if startswith (c # cs) sub then Some 0 else map_option Suc (find_sub sub cs))"

text \<open>\<open>s.split('\n')\<close>: never empty, \<open>''.split('\n') == ['']\<close>\<close>

fun split_nl :: "string \<Rightarrow> string list" where
  "split_nl [] = [[]]"
| "split_nl (c # cs) =
     (if c = NL then [] # split_nl cs
      else (case split_nl cs of [] \<Rightarrow> [[c]] | l # ls \<Rightarrow> (c # l) # ls))"

text \<open>\<open>'\n'.join(ls)\<close>\<close>

fun join_nl :: "string list \<Rightarrow> string" where
  "join_nl [] = []"
| "join_nl [l] = l"
| "join_nl (l # ls) = l @ NL # join_nl ls"

text \<open>\<open>s.count('\n')\<close>\<close>

definition count_nl :: "string \<Rightarrow> nat" where
  "count_nl s = length (filter (\<lambda>c. c = NL) s)"

text \<open>\<open>[line + '\n' for line in s.split('\n')]\<close>\<close>

definition nl_lines :: "string \<Rightarrow> string list" where
  "nl_lines s = map (\<lambda>line. line @ [NL]) (split_nl s)"

text \<open>\<open>str(n)\<close> for a natural number, as an f-string prints it\<close>

definition digit_char :: "nat \<Rightarrow> char" where
  "digit_char d = ''0123456789'' ! d"

function str_nat :: "nat \<Rightarrow> string" where
  "str_nat n = (if n < 10 then [digit_char n] else str_nat (n div 10) @ [digit_char (n mod 10)])"
  by pat_completeness auto
termination
  by (relation "measure id") auto

declare str_nat.simps [simp del]

section \<open>Notebook cells\<close>

text \<open>
  A cell is the dictionary the converter builds. \<open>metadata\<close> is \<open>None\<close> for the empty
  dictionary and otherwise holds the three traceability entries. A markdown cell has no
  \<open>execution_count\<close> and no \<open>outputs\<close> key (\<open>None\<close>); in a code cell the converter sets
  \<open>execution_count\<close> to Python's \<open>None\<close> (\<open>Some None\<close>) and \<open>outputs\<close> to the empty list.
  An output is what a kernel adds when a cell runs: text on a named stream, or an error
  with its name and value.
\<close>

datatype cell_output =
  Stream_Output string string
| Error_Output string string

record source_meta =
  source_file :: string
  source_line :: nat
  source_anchor :: string

record cell =
  cell_type :: string
  execution_count :: "nat option option"
  metadata :: "source_meta option"
  outputs :: "cell_output list option"
  source :: "string list"

definition anchor_of :: "string \<Rightarrow> nat \<Rightarrow> string" where
  "anchor_of file_path line = file_path @ '':'' @ str_nat line"

definition anchor_meta :: "string \<Rightarrow> nat \<Rightarrow> source_meta option" where
  "anchor_meta file_path line =
     Some \<lparr>source_file = file_path, source_line = line, source_anchor = anchor_of file_path line\<rparr>"

text \<open>The markdown cell of a prose span (lines 54 to 66 and 179 to 190).\<close>

definition prose_cell :: "string \<Rightarrow> nat \<Rightarrow> string \<Rightarrow> cell" where
  "prose_cell file_path md_start_line markdown_content =
     \<lparr>cell_type = ''markdown'', execution_count = None,
      metadata = anchor_meta file_path md_start_line, outputs = None,
      source = (''<!-- source:'' @ anchor_of file_path md_start_line @ '' -->'' @ [NL])
               # nl_lines markdown_content\<rparr>"

text \<open>The markdown cell of a fenced block that is shown, not run (lines 72 to 80, 165 to 173).\<close>

definition fenced_md_cell :: "string \<Rightarrow> nat \<Rightarrow> string \<Rightarrow> string \<Rightarrow> cell" where
  "fenced_md_cell file_path start_line shown_tag code_content =
     \<lparr>cell_type = ''markdown'', execution_count = None,
      metadata = anchor_meta file_path start_line, outputs = None,
      source = [''<!-- source:'' @ anchor_of file_path start_line @ '' -->'' @ [NL],
                ''```'' @ shown_tag @ [NL] @ code_content @ [NL] @ ''```'']\<rparr>"

section \<open>The heuristic rewriter\<close>

text \<open>Lines 84 to 104: the lines put in front of a Python code cell.\<close>

definition needs_import :: "string \<Rightarrow> string \<Rightarrow> bool" where
  "needs_import m code_content =
     (str_in (m @ ''.'') code_content \<and> \<not> str_in (''import '' @ m) code_content)"

definition import_lines :: "string \<Rightarrow> string list" where
  \<open>import_lines code_content =
     (if needs_import ''os'' code_content then [''import os\<newline>''] else []) @
     (if needs_import ''sys'' code_content then [''import sys\<newline>''] else []) @
     (if needs_import ''requests'' code_content then [''import requests\<newline>''] else []) @
     (if needs_import ''inspect'' code_content then [''import inspect\<newline>''] else []) @
     (if str_in ''obj.'' code_content \<and> \<not> str_in ''obj ='' code_content
         \<and> \<not> str_in ''obj='' code_content
      then [''obj = requests  # Example object for inspection\<newline>''] else []) @
     (if str_in ''pkg_resources'' code_content
      then [''try:\<newline>'',
            ''    import pkg_resources\<newline>'',
            ''except ImportError:\<newline>'',
            ''    print("pkg_resources not available - skipping package introspection")\<newline>'',
            ''    pkg_resources = None\<newline>'']
      else [])\<close>

text \<open>Lines 122 to 140: the loop over the lines of a body that mentions \<open>pkg_resources\<close>.\<close>

fun wrap_pkg_lines :: "bool \<Rightarrow> string list \<Rightarrow> string list" where
  "wrap_pkg_lines in_pkg_block [] = []"
| "wrap_pkg_lines in_pkg_block (line # rest) =
     (if str_in ''pkg_resources.'' line
      then [''if pkg_resources is not None:\<newline>'', ''    '' @ line @ [NL]]
           @ wrap_pkg_lines True rest
      else if startswith (strip line) ''import pkg_resources''
      then wrap_pkg_lines in_pkg_block rest
      else if in_pkg_block \<and>
              (str_in ''print('' line \<or> str_in ''dist.'' line \<or> str_in ''entry_points'' line)
      then [''if pkg_resources is not None:\<newline>'', ''    '' @ line @ [NL]]
           @ wrap_pkg_lines False rest
      else (line @ [NL]) # wrap_pkg_lines False rest)"

text \<open>The code cell of a Python block (lines 107 to 147).\<close>

definition python_cell :: "string \<Rightarrow> nat \<Rightarrow> string \<Rightarrow> cell" where
  "python_cell file_path start_line code_content =
     \<lparr>cell_type = ''code'', execution_count = Some None,
      metadata = anchor_meta file_path start_line, outputs = Some [],
      source = (''# [source:'' @ anchor_of file_path start_line @ '']'' @ [NL])
               # import_lines code_content
               @ (if str_in ''pkg_resources'' code_content
                  then wrap_pkg_lines False (split_nl code_content)
                  else nl_lines code_content)\<rparr>"

text \<open>The code cell of a shell block (lines 150 to 161).\<close>

definition shell_cell :: "string \<Rightarrow> nat \<Rightarrow> string \<Rightarrow> cell" where
  "shell_cell file_path start_line code_content =
     \<lparr>cell_type = ''code'', execution_count = Some None,
      metadata = anchor_meta file_path start_line, outputs = Some [],
      source = [''# [source:'' @ anchor_of file_path start_line @ '']'' @ [NL], ''%%bash\<newline>'']
               @ nl_lines code_content\<rparr>"

section \<open>The block classifier\<close>

text \<open>
  The three kinds of unit. The converter has no classifier function of its own: the kind
  of a fenced block is the branch taken by the \<open>if\<close>/\<open>elif\<close>/\<open>else\<close> chain of lines 68,
  70, 148 and 163, which \<open>classify\<close> follows test by test.
\<close>

datatype kind = Code | Shell | Markdown

definition python_tags :: "string list" where
  "python_tags = [''python'', ''py'']"

definition shell_tags :: "string list" where
  "shell_tags = [''bash'', ''shell'', ''sh'', ''zsh'']"

definition classify :: "string \<Rightarrow> string \<Rightarrow> kind" where
  "classify language code_content =
     (if lower language \<in> set python_tags
      then (if str_in ''>>>'' code_content then Markdown else Code)
      else if lower language \<in> set shell_tags \<or> str_in ''$'' code_content then Shell
      else Markdown)"

text \<open>The cell appended for a fenced block (lines 68 to 174).\<close>

definition block_cell :: "string \<Rightarrow> nat \<Rightarrow> string \<Rightarrow> string \<Rightarrow> cell" where
  "block_cell file_path start_line language code_content =
     (if lower language \<in> set python_tags
      then (if str_in ''>>>'' code_content
            then fenced_md_cell file_path start_line ''python'' code_content
            else python_cell file_path start_line code_content)
      else if lower language \<in> set shell_tags \<or> str_in ''$'' code_content
      then shell_cell file_path start_line code_content
      else fenced_md_cell file_path start_line language code_content)"

section \<open>The block scanner\<close>

text \<open>
  \<open>re.finditer(r'```(\w+)?\n(.*?)```', content, re.DOTALL)\<close>. A match object is a record
  of its two offsets and its two groups. \<open>match_here\<close> matches the pattern at the head of
  a string: the opening fence, the longest run of word characters (the greedy \<open>\w+\<close>; no
  shorter run can be followed by a newline), the newline, and the body up to the first
  closing fence (the non-greedy \<open>.*?\<close>, where \<open>.\<close> accepts every character under
  \<open>re.DOTALL\<close>). \<open>finditer_from\<close> tries every offset from left to right and resumes
  after the end of each match; matches are never empty.
\<close>

record rmatch =
  m_start :: nat
  m_end :: nat
  group1 :: "string option"
  group2 :: string

definition match_here :: "string \<Rightarrow> (string option \<times> string) option" where
  "match_here s =
     (if startswith s ''```'' then
        (let tag = takeWhile is_word (drop 3 s);
             after_tag = dropWhile is_word (drop 3 s)
         in case after_tag of
              [] \<Rightarrow> None
            | c # rest \<Rightarrow>
                if c = NL then
                  (case find_sub ''```'' rest of
                     None \<Rightarrow> None
                   | Some k \<Rightarrow> Some (if tag = [] then None else Some tag, take k rest))
                else None)
      else None)"

text \<open>\<open>match.group(1) or ''\<close>\<close>

definition tag_of :: "string option \<Rightarrow> string" where
  "tag_of g = (case g of None \<Rightarrow> [] | Some t \<Rightarrow> t)"

definition match_len :: "string option \<Rightarrow> string \<Rightarrow> nat" where
  "match_len g1 g2 = 3 + length (tag_of g1) + 1 + length g2 + 3"

function finditer_from :: "string \<Rightarrow> nat \<Rightarrow> rmatch list" where
  "finditer_from content pos =
     (if length content \<le> pos then []
      else (case match_here (drop pos content) of
              None \<Rightarrow> finditer_from content (Suc pos)
            | Some (g1, g2) \<Rightarrow>
                \<lparr>m_start = pos, m_end = pos + match_len g1 g2, group1 = g1, group2 = g2\<rparr>
                # finditer_from content (pos + match_len g1 g2)))"
  by pat_completeness auto
termination
  by (relation "measure (\<lambda>(content, pos). length content - pos)") (auto simp: match_len_def)

declare finditer_from.simps [simp del]

definition finditer :: "string \<Rightarrow> rmatch list" where
  "finditer content = finditer_from content 0"

section \<open>The converter\<close>

text \<open>\<open>content[i:j]\<close> for offsets \<open>i\<close>, \<open>j\<close> that are not negative\<close>

definition slice :: "string \<Rightarrow> nat \<Rightarrow> nat \<Rightarrow> string" where
  "slice s i j = take (j - i) (drop i s)"

text \<open>\<open>content[:pos].count('\n') + 1\<close>\<close>

definition line_at :: "string \<Rightarrow> nat \<Rightarrow> nat" where
  "line_at content pos = count_nl (take pos content) + 1"

text \<open>Lines 52 to 66 and 177 to 190: the prose between \<open>last_end\<close> and the next match.\<close>

definition prose_cells :: "string \<Rightarrow> string \<Rightarrow> nat \<Rightarrow> nat \<Rightarrow> cell list" where
  "prose_cells file_path content last_end until =
     (let markdown_content = strip (slice content last_end until)
      in if markdown_content \<noteq> []
         then [prose_cell file_path (line_at content last_end) markdown_content]
         else [])"

text \<open>The loop of lines 37 to 175 over the matches, and the statements after it.\<close>

fun parse_loop :: "string \<Rightarrow> string \<Rightarrow> nat \<Rightarrow> rmatch list \<Rightarrow> cell list" where
  "parse_loop file_path content last_end [] =
     prose_cells file_path content last_end (length content)"
| "parse_loop file_path content last_end (m # ms) =
     prose_cells file_path content last_end (m_start m)
     @ [block_cell file_path (line_at content (m_start m)) (tag_of (group1 m))
          (strip (group2 m))]
     @ parse_loop file_path content (m_end m) ms"

definition parse_content :: "string \<Rightarrow> string \<Rightarrow> cell list" where
  "parse_content file_path content = parse_loop file_path content 0 (finditer content)"

text \<open>
  \<open>parse_markdown_file\<close>: the file system is a map from paths to the text read; a path
  that cannot be read ends the process with status 1.
\<close>

datatype error = SystemExit nat

definition parse_markdown_file :: "(string \<rightharpoonup> string) \<Rightarrow> string \<Rightarrow> error + cell list" where
  "parse_markdown_file fs file_path =
     (case fs file_path of
        None \<Rightarrow> Inl (SystemExit 1)
      | Some content \<Rightarrow> Inr (parse_content file_path content))"

text \<open>
  The raw segments the loop walks through, with their start offsets and their text before
  trimming: the prose from \<open>last_end\<close> up to each match, the match itself, and the prose
  after the last match.
\<close>

datatype raw_segment =
  Prose_Span nat string
| Fenced_Block nat "string option" string

fun raw_segments :: "string \<Rightarrow> nat \<Rightarrow> rmatch list \<Rightarrow> raw_segment list" where
  "raw_segments content last_end [] = [Prose_Span last_end (drop last_end content)]"
| "raw_segments content last_end (m # ms) =
     Prose_Span last_end (slice content last_end (m_start m))
     # Fenced_Block (m_start m) (group1 m) (group2 m)
     # raw_segments content (m_end m) ms"

definition scan :: "string \<Rightarrow> raw_segment list" where
  "scan content = raw_segments content 0 (finditer content)"

fun seg_offset :: "raw_segment \<Rightarrow> nat" where
  "seg_offset (Prose_Span off t) = off"
| "seg_offset (Fenced_Block off g b) = off"

text \<open>The text a segment covers in the document, delimiters included.\<close>

fun seg_text :: "raw_segment \<Rightarrow> string" where
  "seg_text (Prose_Span off t) = t"
| "seg_text (Fenced_Block off g b) = ''```'' @ tag_of g @ [NL] @ b @ ''```''"

text \<open>The same with the text the converter stores, which is trimmed.\<close>

fun seg_stored_text :: "raw_segment \<Rightarrow> string" where
  "seg_stored_text (Prose_Span off t) = strip t"
| "seg_stored_text (Fenced_Block off g b) = ''```'' @ tag_of g @ [NL] @ strip b @ ''```''"

text \<open>The units a segment becomes.\<close>

fun seg_cells :: "string \<Rightarrow> string \<Rightarrow> raw_segment \<Rightarrow> cell list" where
  "seg_cells file_path content (Prose_Span off t) =
     (if strip t \<noteq> [] then [prose_cell file_path (line_at content off) (strip t)] else [])"
| "seg_cells file_path content (Fenced_Block off g b) =
     [block_cell file_path (line_at content off) (tag_of g) (strip b)]"

fun yields_unit :: "raw_segment \<Rightarrow> bool" where
  "yields_unit (Prose_Span off t) = (strip t \<noteq> [])"
| "yields_unit (Fenced_Block off g b) = True"

text \<open>The locator line of a unit: \<open>cell['metadata']['source_line']\<close>.\<close>

definition unit_line :: "cell \<Rightarrow> nat option" where
  "unit_line c = map_option source_line (metadata c)"

text \<open>The locator lines of the cells that carry one, in cell order.\<close>

definition locator_lines :: "cell list \<Rightarrow> nat list" where
  "locator_lines cs = map source_line (List.map_filter metadata cs)"

section \<open>Shell command cells\<close>

text \<open>
  \<open>process_shell_commands\<close>, lines 284 to 335. The loop visits the cells in order and
  replaces the \<open>source\<close> of the cells it recognises; the list is returned with the same
  cells in the same places. The \<open>try\<close> around the loop body guards against dictionaries
  without the keys read here, which the record type excludes, and the assignment to
  \<open>cell['source']\<close> is the last statement of the body.
\<close>

definition command_comment :: "string \<Rightarrow> string" where
  "command_comment first_command =
     (if startswith first_command ''pip'' then ''# Install Python package\<newline>''
      else if startswith first_command ''git'' then ''# Git command\<newline>''
      else if startswith first_command ''python'' then ''# Run Python script\<newline>''
      else ''# Shell command\<newline>'')"

definition failure_note :: string where
  "failure_note =
     ''\<newline># Note: If this command fails, you may need to install dependencies or adjust paths''"

definition is_bash_cell :: "cell \<Rightarrow> bool" where
  "is_bash_cell c =
     (cell_type c = ''code'' \<and>
      (case source c of [] \<Rightarrow> False | first # rest \<Rightarrow> startswith first ''%%bash''))"

definition enhanced_source :: "string list \<Rightarrow> string list" where
  "enhanced_source src =
     [''%%bash\<newline>'']
     @ (case tl src of [] \<Rightarrow> [] | second # others \<Rightarrow> [command_comment (strip second)])
     @ tl src
     @ [failure_note]"

definition process_cell :: "cell \<Rightarrow> cell" where
  "process_cell c = (if is_bash_cell c then c\<lparr>source := enhanced_source (source c)\<rparr> else c)"

definition process_shell_commands :: "cell list \<Rightarrow> cell list" where
  "process_shell_commands cells = map process_cell cells"

section \<open>The document assembler\<close>

record kernelspec =
  ks_display_name :: string
  ks_language :: string
  ks_name :: string

record language_info =
  li_codemirror_mode :: "string \<times> nat"
  li_file_extension :: string
  li_mimetype :: string
  li_name :: string
  li_nbconvert_exporter :: string
  li_pygments_lexer :: string
  li_version :: string

record notebook =
  cells :: "cell list"
  nb_metadata :: "kernelspec \<times> language_info"
  nbformat :: nat
  nbformat_minor :: nat

definition default_metadata :: "kernelspec \<times> language_info" where
  "default_metadata =
     (\<lparr>ks_display_name = ''Python 3'', ks_language = ''python'', ks_name = ''python3''\<rparr>,
      \<lparr>li_codemirror_mode = (''ipython'', 3), li_file_extension = ''.py'',
       li_mimetype = ''text/x-python'', li_name = ''python'',
       li_nbconvert_exporter = ''python'', li_pygments_lexer = ''ipython3'',
       li_version = ''3.12.0''\<rparr>)"

definition create_notebook :: "cell list \<Rightarrow> notebook" where
  "create_notebook cs =
     \<lparr>cells = cs, nb_metadata = default_metadata, nbformat = 4, nbformat_minor = 4\<rparr>"

text \<open>
  The two fixed cells. Each holds one character beyond code point 255 (a check mark, a
  pile of books), written here as the bytes of its UTF-8 form.
\<close>

definition setup_cell :: cell where
  \<open>setup_cell =
     \<lparr>cell_type = ''code'', execution_count = Some None, metadata = None, outputs = Some [],
      source =
        [''# Setup and Imports\<newline>'',
         ''import sys\<newline>'',
         ''import os\<newline>'',
         ''from pathlib import Path\<newline>'',
         ''\<newline>'',
         ''# Enable shell magic for terminal commands\<newline>'',
         ''# Note: %%bash magic is built into IPython/Jupyter\<newline>'',
         ''\<newline>'',
         ''# Set up display options\<newline>'',
         ''from IPython.display import display, HTML\<newline>'',
         ''\<newline>'',
         ''# Configure notebook for better output\<newline>'',
         ''import warnings\<newline>'',
         ''warnings.filterwarnings('' @ [CHR 0x27] @ ''ignore'' @ [CHR 0x27] @ '')\<newline>'',
         ''\<newline>'',
         ''print("'' @ [CHR 0xE2, CHR 0x9C, CHR 0x85] @ '' Notebook setup complete!")'']\<rparr>\<close>

definition toc_cell :: cell where
  \<open>toc_cell =
     \<lparr>cell_type = ''markdown'', execution_count = None, metadata = None, outputs = None,
      source =
        [''# '' @ [CHR 0xF0, CHR 0x9F, CHR 0x93, CHR 0x9A] @ '' Mastering New Python Libraries\<newline>'',
         ''\<newline>'',
         ''## Interactive Notebook Version\<newline>'',
         ''\<newline>'',
         ''This notebook contains all the code examples from the README.md file. '',
         ''You can run each cell interactively to explore Python libraries.\<newline>'',
         ''\<newline>'',
         ''### How to Use This Notebook:\<newline>'',
         ''\<newline>'',
         ''1. **Setup Cell**: Run the first cell to configure the environment\<newline>'',
         ''2. **Code Cells**: Execute Python examples to see them in action\<newline>'',
         ''3. **Terminal Cells**: Run shell commands with `%%bash` magic\<newline>'',
         ''4. **Markdown Cells**: Read explanations and documentation\<newline>'',
         ''\<newline>'',
         ''---\<newline>'']\<rparr>\<close>

text \<open>\<open>xs.insert(i, x)\<close> for \<open>i\<close> not negative: an index beyond the end appends.\<close>

definition list_insert :: "nat \<Rightarrow> 'a \<Rightarrow> 'a list \<Rightarrow> 'a list" where
  "list_insert i x xs = take i xs @ x # drop i xs"

definition add_setup_cell :: "notebook \<Rightarrow> notebook" where
  "add_setup_cell nb = nb\<lparr>cells := list_insert 0 setup_cell (cells nb)\<rparr>"

definition add_toc_cell :: "notebook \<Rightarrow> notebook" where
  "add_toc_cell nb = nb\<lparr>cells := list_insert 1 toc_cell (cells nb)\<rparr>"

text \<open>Lines 364 to 375 of \<open>main\<close>: the notebook that is written out.\<close>

definition assemble :: "bool \<Rightarrow> bool \<Rightarrow> cell list \<Rightarrow> notebook" where
  "assemble no_setup no_toc cs =
     (let nb = create_notebook cs;
          nb = (if \<not> no_setup then add_setup_cell nb else nb);
          nb = (if \<not> no_toc then add_toc_cell nb else nb)
      in nb)"

text \<open>Lines 361 to 375 of \<open>main\<close> on a document that has been read.\<close>

definition convert :: "bool \<Rightarrow> bool \<Rightarrow> string \<Rightarrow> string \<Rightarrow> notebook" where
  "convert no_setup no_toc file_path content =
     assemble no_setup no_toc (process_shell_commands (parse_content file_path content))"

section \<open>The syntax validator\<close>

text \<open>
  \<open>validate_python_syntax\<close> of \<open>test_code_blocks.py\<close>, lines 44 to 82. \<open>repl_line\<close> is
  the body of the loop over the lines: what one line adds to \<open>python_lines\<close>.
  \<open>parser_input\<close> is the text handed to \<open>ast.parse\<close>, which is a parameter of the model
  and answers with the failure it raises, if any.
\<close>

definition repl_line :: "string \<Rightarrow> string list" where
  "repl_line raw_line =
     (let line = strip raw_line
      in if startswith line ''>>> '' then [drop 4 line]
         else if startswith line ''... '' then [drop 4 line]
         else if startswith line ''...'' then [drop 3 line]
         else if line \<noteq> [] \<and> \<not> startswith line ''>>>'' \<and> \<not> startswith line ''...''
         then [line]
         else [])"

definition parser_input :: "string \<Rightarrow> string" where
  "parser_input code =
     (if str_in ''>>>'' code \<or> str_in ''...'' code
      then join_nl (concat (map repl_line (split_nl code)))
      else code)"

datatype parse_failure =
  SyntaxError string nat
| OtherException string

definition validate_python_syntax ::
  "(string \<Rightarrow> parse_failure option) \<Rightarrow> string \<Rightarrow> string \<Rightarrow> bool \<times> string" where
  "validate_python_syntax ast_parse code context =
     (let code = parser_input code
      in if strip code = [] then (True, [])
         else (case ast_parse code of
                 None \<Rightarrow> (True, [])
               | Some (SyntaxError msg lineno) \<Rightarrow>
                   (False, ''Syntax error in '' @ context @ '': '' @ msg @ '' at line ''
                           @ str_nat lineno)
               | Some (OtherException e) \<Rightarrow>
                   (False, ''Unexpected error in '' @ context @ '': '' @ e)))"

section \<open>The execution validator\<close>

text \<open>
  \<open>validate_notebook\<close> of \<open>validate_notebook.py\<close>, lines 26 to 154. A loaded cell has its
  type, its source, which \<open>nbformat\<close> gives as one string or as a list of lines, and the
  \<open>source_anchor\<close> of its metadata when there is one. Loading the file and running the
  filtered notebook are parameters: \<open>load\<close> gives the cells of a readable notebook file,
  \<open>ep_preprocess\<close> gives the exception the run raises, if any. The messages printed are
  kept as a list of events; the listing of failing cells printed after a failed run
  (lines 118 to 152) only reads the executed cells and is left out.
\<close>

datatype nb_source =
  Source_Str string
| Source_Lines "string list"

record nb_cell =
  nb_cell_type :: string
  nb_source :: nb_source
  nb_source_anchor :: "string option"

datatype py_exception = Exception string

datatype event =
  Validating string
| Cell_Counts nat nat
| Executed_Successfully
| Execution_Failed py_exception

definition source_has :: "string \<Rightarrow> nb_source \<Rightarrow> bool" where
  "source_has sub src =
     (case src of Source_Str s \<Rightarrow> str_in sub s | Source_Lines ls \<Rightarrow> list_ex (str_in sub) ls)"

definition problematic_cells :: "string list" where
  "problematic_cells =
     [''README.md:216'', ''README.md:301'', ''README.md:488'', ''README.md:541'',
      ''README.md:559'', ''README.md:650'']"

definition is_problematic :: "nb_cell \<Rightarrow> bool" where
  "is_problematic c =
     (case nb_source_anchor c of
        None \<Rightarrow> False
      | Some anchor \<Rightarrow> list_ex (\<lambda>problem. str_in problem anchor) problematic_cells)"

definition is_skipped :: "nb_cell \<Rightarrow> bool" where
  "is_skipped c =
     (nb_cell_type c = ''code'' \<and>
      (source_has ''%%bash'' (nb_source c) \<or> source_has ''pkg_resources'' (nb_source c)
       \<or> source_has ''import mcp'' (nb_source c) \<or> is_problematic c))"

definition filtered_cells :: "nb_cell list \<Rightarrow> nb_cell list" where
  "filtered_cells nb = filter (\<lambda>c. \<not> is_skipped c) nb"

definition validate_notebook ::
  "(string \<rightharpoonup> nb_cell list) \<Rightarrow> (nb_cell list \<Rightarrow> py_exception option) \<Rightarrow> string
     \<Rightarrow> py_exception + event list \<times> bool" where
  "validate_notebook load ep_preprocess notebook_path =
     (case load notebook_path of
        None \<Rightarrow> Inl (Exception ''FileNotFoundError'')
      | Some nb \<Rightarrow>
          (let printed = [Validating notebook_path,
                          Cell_Counts (length nb) (length (filtered_cells nb))]
           in case ep_preprocess (filtered_cells nb) of
                None \<Rightarrow> Inr (printed @ [Executed_Successfully], True)
              | Some e \<Rightarrow> Inr (printed @ [Execution_Failed e], False)))"

section \<open>Readings of the specification\<close>

text \<open>
  Two definitions that follow the words of the specification, not the code. The
  specification calls a body interactive when one of its lines begins with the prompt
  \<open>>>>\<close>, and describes the text sent to the parser as the body with the prompt prefix
  removed from the lines that start with one and every other line unchanged.
\<close>

definition spec_has_prompt_line :: "string \<Rightarrow> bool" where
  "spec_has_prompt_line body = list_ex (\<lambda>line. startswith line ''>>>'') (split_nl body)"

definition spec_strip_line :: "string \<Rightarrow> string" where
  "spec_strip_line line =
     (if startswith line ''>>> '' then drop 4 line
      else if startswith line ''... '' then drop 4 line
      else line)"

definition spec_parser_input :: "string \<Rightarrow> string" where
  "spec_parser_input code = join_nl (map spec_strip_line (split_nl code))"

section \<open>Properties of the scanner\<close>

text \<open>
  What is true of the matches found from offset \<open>pos\<close> on: they follow each other without
  overlap inside the document, and each covers the two fences, the tag, the newline and
  the body it reports.
\<close>

fun matches_from :: "string \<Rightarrow> nat \<Rightarrow> rmatch list \<Rightarrow> bool" where
  "matches_from content pos [] = True"
| "matches_from content pos (m # ms) =
     (pos \<le> m_start m \<and> m_start m \<le> m_end m \<and> m_end m \<le> length content \<and>
      slice content (m_start m) (m_end m) = ''```'' @ tag_of (group1 m) @ [NL] @ group2 m @ ''```'' \<and>
      matches_from content (m_end m) ms)"

lemma startswith_iff: "startswith s p \<longleftrightarrow> take (length p) s = p"
  by (induction s p rule: startswith.induct) auto

lemma find_sub_Some:
  "find_sub sub s = Some k \<Longrightarrow> k + length sub \<le> length s \<and> take (length sub) (drop k s) = sub"
proof (induction s arbitrary: k)
  case Nil then show ?case by (auto split: if_splits)
next
  case (Cons c cs)
  show ?case
  proof (cases "startswith (c # cs) sub")
    case True
    with Cons.prems have "k = 0" by simp
    moreover from True have t: "take (length sub) (c # cs) = sub" by (simp add: startswith_iff)
    moreover have "length sub \<le> length (c # cs)"
    proof -
      have "length (take (length sub) (c # cs)) = length sub" using t by simp
      then show ?thesis by simp
    qed
    ultimately show ?thesis by simp
  next
    case False
    with Cons.prems obtain j where j: "find_sub sub cs = Some j" "k = Suc j" by auto
    from Cons.IH[OF j(1)] j(2) show ?thesis by simp
  qed
qed

lemma match_here_Some:
  assumes "match_here s = Some (g1, g2)"
  shows "match_len g1 g2 \<le> length s \<and>
         take (match_len g1 g2) s = ''```'' @ tag_of g1 @ [NL] @ g2 @ ''```''"
proof -
  from assms have sw: "startswith s ''```''" by (auto simp: match_here_def split: if_splits)
  define r where "r = drop 3 s"
  define tag where "tag = takeWhile is_word r"
  define aft where "aft = dropWhile is_word r"
  from sw have "take 3 s = ''```''" by (simp add: startswith_iff numeral_3_eq_3)
  then have s: "s = ''```'' @ r" unfolding r_def
    by (metis append_take_drop_id)
  have r: "r = tag @ aft" by (simp add: tag_def aft_def)
  from assms sw obtain rest k where aft: "aft = NL # rest" and k: "find_sub ''```'' rest = Some k"
    and g1: "g1 = (if tag = [] then None else Some tag)" and g2: "g2 = take k rest"
    by (auto simp: match_here_def Let_def r_def tag_def aft_def
             split: if_splits list.splits option.splits)
  from find_sub_Some[OF k] have kl: "k + 3 \<le> length rest"
    and kt: "take 3 (drop k rest) = ''```''" by (simp_all add: numeral_3_eq_3)
  have tg: "tag_of g1 = tag" by (simp add: g1 tag_of_def)
  have "drop k rest = take 3 (drop k rest) @ drop 3 (drop k rest)"
    by (rule append_take_drop_id [symmetric])
  then have "drop k rest = ''```'' @ drop (k + 3) rest"
    by (simp only: kt drop_drop add.commute)
  then have rest: "rest = g2 @ ''```'' @ drop (k + 3) rest"
    unfolding g2 by (metis append_take_drop_id)
  define full where "full = ''```'' @ tag @ [NL] @ g2 @ ''```''"
  have sfull: "s = full @ drop (k + 3) rest"
    using s r aft rest by (simp add: full_def)
  have len: "match_len g1 g2 = length full"
    using kl by (simp add: match_len_def tg full_def g2)
  have "length full \<le> length s" by (subst sfull) simp
  moreover have "take (length full) s = full" by (subst sfull) simp
  ultimately show ?thesis unfolding len tg full_def by simp
qed

lemma matches_from_mono: "matches_from content p ms \<Longrightarrow> q \<le> p \<Longrightarrow> matches_from content q ms"
  by (cases ms) auto

lemma finditer_from_matches: "matches_from content pos (finditer_from content pos)"
proof (induction content pos rule: finditer_from.induct)
  case (1 content pos)
  show ?case
  proof (cases "length content \<le> pos")
    case True
    then show ?thesis by (simp add: finditer_from.simps)
  next
    case False
    show ?thesis
    proof (cases "match_here (drop pos content)")
      case None
      with False 1(1) have "matches_from content (Suc pos) (finditer_from content (Suc pos))" by simp
      then have "matches_from content pos (finditer_from content (Suc pos))"
        by (rule matches_from_mono) simp
      with False None show ?thesis by (subst finditer_from.simps) simp
    next
      case (Some p)
      obtain g1 g2 where p: "p = (g1, g2)" by (cases p)
      from match_here_Some[OF Some[unfolded p]]
      have le: "match_len g1 g2 \<le> length (drop pos content)"
        and tk: "take (match_len g1 g2) (drop pos content) = ''```'' @ tag_of g1 @ [NL] @ g2 @ ''```''"
        by simp_all
      from 1(2)[OF False Some[unfolded p] refl]
      have ih: "matches_from content (pos + match_len g1 g2)
                  (finditer_from content (pos + match_len g1 g2))" .
      have "pos + match_len g1 g2 \<le> length content" using le False by simp
      with ih tk False Some p show ?thesis
        by (subst finditer_from.simps) (simp add: slice_def)
    qed
  qed
qed

lemma slice_join:
  assumes "i \<le> j" and "j \<le> k"
  shows "slice s i j @ slice s j k = slice s i k"
proof -
  have "take ((j - i) + (k - j)) (drop i s) =
        take (j - i) (drop i s) @ take (k - j) (drop (j - i) (drop i s))"
    by (rule take_add)
  moreover have "drop (j - i) (drop i s) = drop j s" using assms(1) by simp
  moreover have "(j - i) + (k - j) = k - i" using assms by simp
  ultimately show ?thesis by (simp add: slice_def)
qed

lemma raw_segments_cover:
  "matches_from content last_end ms \<Longrightarrow>
   concat (map seg_text (raw_segments content last_end ms)) = drop last_end content"
proof (induction ms arbitrary: last_end)
  case Nil
  show ?case by simp
next
  case (Cons m ms)
  from Cons.prems have a: "last_end \<le> m_start m" "m_start m \<le> m_end m" "m_end m \<le> length content"
    and tx: "slice content (m_start m) (m_end m) = ''```'' @ tag_of (group1 m) @ [NL] @ group2 m @ ''```''"
    and rest: "matches_from content (m_end m) ms" by simp_all
  have "concat (map seg_text (raw_segments content last_end (m # ms))) =
        slice content last_end (m_start m) @ slice content (m_start m) (m_end m) @ drop (m_end m) content"
    using Cons.IH[OF rest] tx by simp
  also have "\<dots> = drop last_end content"
  proof -
    have "drop (m_end m) content = slice content (m_end m) (length content)" by (simp add: slice_def)
    then show ?thesis using a by (simp add: slice_join) (simp add: slice_def)
  qed
  finally show ?case .
qed

lemma parse_loop_segments:
  "parse_loop file_path content last_end ms =
   concat (map (seg_cells file_path content) (raw_segments content last_end ms))"
  by (induction ms arbitrary: last_end) (simp_all add: prose_cells_def Let_def slice_def)

lemma count_nl_take_mono: "i \<le> j \<Longrightarrow> count_nl (take i s) \<le> count_nl (take j s)"
proof -
  assume "i \<le> j"
  then have "take j s = take i s @ take (j - i) (drop i s)"
    by (metis le_add_diff_inverse take_add)
  then show ?thesis by (simp add: count_nl_def)
qed

lemma line_at_mono: "i \<le> j \<Longrightarrow> line_at content i \<le> line_at content j"
  by (simp add: line_at_def count_nl_take_mono)

lemma raw_segments_offsets:
  "matches_from content last_end ms \<Longrightarrow>
   sorted (map seg_offset (raw_segments content last_end ms)) \<and>
   (\<forall>seg \<in> set (raw_segments content last_end ms). last_end \<le> seg_offset seg)"
proof (induction ms arbitrary: last_end)
  case Nil
  show ?case by simp
next
  case (Cons m ms)
  from Cons.prems have a: "last_end \<le> m_start m" "m_start m \<le> m_end m"
    and rest: "matches_from content (m_end m) ms" by simp_all
  from Cons.IH[OF rest] have s: "sorted (map seg_offset (raw_segments content (m_end m) ms))"
    and b: "\<forall>seg \<in> set (raw_segments content (m_end m) ms). m_end m \<le> seg_offset seg" by simp_all
  from a b have "\<forall>seg \<in> set (raw_segments content (m_end m) ms). m_start m \<le> seg_offset seg"
    and "\<forall>seg \<in> set (raw_segments content (m_end m) ms). last_end \<le> seg_offset seg"
    by fastforce+
  with a s show ?case by simp
qed

lemma metadata_block_cell:
  "metadata (block_cell file_path line tag body) = anchor_meta file_path line"
  by (simp add: block_cell_def fenced_md_cell_def python_cell_def shell_cell_def)

lemma map_filter_append: "List.map_filter f (xs @ ys) = List.map_filter f xs @ List.map_filter f ys"
  by (simp add: List.map_filter_def)

lemma locator_lines_seg_cells:
  "locator_lines (seg_cells file_path content seg) =
     (if yields_unit seg then [line_at content (seg_offset seg)] else [])"
  by (cases seg)
     (simp_all add: locator_lines_def List.map_filter_def prose_cell_def metadata_block_cell
        anchor_meta_def)

lemma locator_lines_append: "locator_lines (xs @ ys) = locator_lines xs @ locator_lines ys"
  by (simp add: locator_lines_def map_filter_append)

lemma locator_lines_segments:
  "locator_lines (concat (map (seg_cells file_path content) segs)) =
   map (\<lambda>seg. line_at content (seg_offset seg)) (filter yields_unit segs)"
  by (induction segs) (simp_all add: locator_lines_append locator_lines_seg_cells, simp add: locator_lines_def List.map_filter_def)

lemma length_seg_cells:
  "length (concat (map (seg_cells file_path content) segs)) = length (filter yields_unit segs)"
proof (induction segs)
  case Nil show ?case by simp
next
  case (Cons seg segs)
  then show ?case by (cases seg) simp_all
qed

lemma sorted_lines_of_segments:
  assumes "sorted (map seg_offset segs)"
  shows "sorted (map (\<lambda>seg. line_at content (seg_offset seg)) (filter yields_unit segs))"
proof -
  from assms have "sorted_wrt (\<lambda>a b. seg_offset a \<le> seg_offset b) segs"
    by (simp add: sorted_map)
  then have "sorted_wrt (\<lambda>a b. line_at content (seg_offset a) \<le> line_at content (seg_offset b)) segs"
    by (rule sorted_wrt_mono_rel[rotated]) (simp add: line_at_mono)
  then have "sorted_wrt (\<lambda>a b. line_at content (seg_offset a) \<le> line_at content (seg_offset b))
               (filter yields_unit segs)"
    by (rule sorted_wrt_filter)
  then show ?thesis by (simp add: sorted_map)
qed

section \<open>Properties of the cells built\<close>

lemma source_block_cell:
  "source (block_cell file_path line tag body) =
     (case classify tag body of
        Code \<Rightarrow>
          (''# [source:'' @ anchor_of file_path line @ '']'' @ [NL])
          # import_lines body
          @ (if str_in ''pkg_resources'' body then wrap_pkg_lines False (split_nl body)
             else nl_lines body)
      | Shell \<Rightarrow>
          [''# [source:'' @ anchor_of file_path line @ '']'' @ [NL], ''%%bash\<newline>'']
          @ nl_lines body
      | Markdown \<Rightarrow>
          [''<!-- source:'' @ anchor_of file_path line @ '' -->'' @ [NL],
           ''```'' @ (if lower tag \<in> {''python'', ''py''} then ''python'' else tag) @ [NL]
             @ body @ [NL] @ ''```''])"
  by (simp add: classify_def block_cell_def python_tags_def shell_tags_def python_cell_def
        shell_cell_def fenced_md_cell_def)

lemma import_lines_os:
  "(''import os\<newline>'' \<in> set (import_lines body)) = (str_in ''os.'' body \<and> \<not> str_in ''import os'' body)"
  by (simp add: import_lines_def needs_import_def)

lemma import_lines_sys:
  "(''import sys\<newline>'' \<in> set (import_lines body)) = (str_in ''sys.'' body \<and> \<not> str_in ''import sys'' body)"
  by (simp add: import_lines_def needs_import_def)

lemma import_lines_requests:
  "(''import requests\<newline>'' \<in> set (import_lines body)) =
     (str_in ''requests.'' body \<and> \<not> str_in ''import requests'' body)"
  by (simp add: import_lines_def needs_import_def)

lemma import_lines_inspect:
  "(''import inspect\<newline>'' \<in> set (import_lines body)) =
     (str_in ''inspect.'' body \<and> \<not> str_in ''import inspect'' body)"
  by (simp add: import_lines_def needs_import_def)

lemma is_bash_cell_iff:
  "is_bash_cell c \<longleftrightarrow>
     (cell_type c = ''code'' \<and> source c \<noteq> [] \<and> startswith (hd (source c)) ''%%bash'')"
  by (cases "source c") (simp_all add: is_bash_cell_def)

section \<open>The claims\<close>

text \<open>
  C1, as amended. The kind of a fenced block is a function of its language tag and its
  trimmed body, given by five rules tried in order, where the interactive-session marker
  is the three characters \<open>>>>\<close> occurring anywhere in the body: a tag that is \<open>python\<close>
  or \<open>py\<close> in lower case and a body without the marker give Code; such a tag and a body
  with the marker give Markdown; a tag that is \<open>bash\<close>, \<open>shell\<close>, \<open>sh\<close> or \<open>zsh\<close> in
  lower case gives Shell; any other tag, the absent tag \<open>''\<close> included, and a body with a
  \<open>$\<close> give Shell; everything else gives Markdown. The cell the converter appends is the
  one of that kind.
\<close>

theorem classify_rules:
  "classify tag body =
     (if lower tag \<in> {''python'', ''py''} \<and> \<not> str_in ''>>>'' body then Code
      else if lower tag \<in> {''python'', ''py''} \<and> str_in ''>>>'' body then Markdown
      else if lower tag \<in> {''bash'', ''shell'', ''sh'', ''zsh''} then Shell
      else if str_in ''$'' body then Shell
      else Markdown) \<and>
   block_cell file_path line tag body =
     (case classify tag body of
        Code \<Rightarrow> python_cell file_path line body
      | Shell \<Rightarrow> shell_cell file_path line body
      | Markdown \<Rightarrow>
          fenced_md_cell file_path line
            (if lower tag \<in> {''python'', ''py''} then ''python'' else tag) body)"
  by (simp add: classify_def block_cell_def python_tags_def shell_tags_def)

text \<open>
  C1, as stated, fails with the marker read as a line that begins with \<open>>>>\<close>: a body
  tagged \<open>py\<close> in which no line begins with the prompt, but a comment contains it, is
  Markdown, where the first rule gives Code.
\<close>

theorem marker_rule_counterexample:
  "lower ''py'' \<in> {''python'', ''py''} \<and>
   \<not> spec_has_prompt_line ''x = 1  # like >>> x'' \<and>
   classify ''py'' ''x = 1  # like >>> x'' = Markdown \<and>
   classify ''py'' ''x = 1  # like >>> x'' \<noteq> Code"
  by (simp add: classify_def python_tags_def lower_def lower_char_def uppercase_def lowercase_def
        spec_has_prompt_line_def NL_def)

text \<open>
  C2, as amended. The raw segments of a document, taken with the text they cover before
  trimming and with the fences, the tag and the newline of each block, concatenate to the
  document; the units are built from these segments in order, each from the trimmed text
  of its segment, and a prose span that is blank after trimming gives no unit.
\<close>

theorem scan_partitions_document:
  "concat (map seg_text (scan content)) = content \<and>
   parse_content file_path content = concat (map (seg_cells file_path content) (scan content))"
  using raw_segments_cover[OF finditer_from_matches, of content 0]
  by (simp add: scan_def finditer_def parse_content_def parse_loop_segments)

text \<open>
  C2, as stated, fails: the stored text is trimmed, so the newline that ends the prose,
  the one that ends the body and the one after the closing fence are in no stored text
  and in no delimiter.
\<close>

theorem stored_text_counterexample:
  "concat (map seg_stored_text (scan ''Intro\<newline>```py\<newline>x = 1\<newline>```\<newline>''))
     = ''Intro```py\<newline>x = 1```'' \<and>
   concat (map seg_stored_text (scan ''Intro\<newline>```py\<newline>x = 1\<newline>```\<newline>''))
     \<noteq> ''Intro\<newline>```py\<newline>x = 1\<newline>```\<newline>''"
  by code_simp

text \<open>
  C3. Every unit of a document carries a locator line; the lines are, in unit order, the
  number of newlines before the start offset of the unit's segment plus one, and they
  never decrease.
\<close>

theorem locator_lines_monotone:
  "locator_lines (parse_content file_path content) =
     map (\<lambda>seg. count_nl (take (seg_offset seg) content) + 1) (filter yields_unit (scan content)) \<and>
   length (locator_lines (parse_content file_path content)) = length (parse_content file_path content) \<and>
   sorted (locator_lines (parse_content file_path content))"
proof -
  have m: "matches_from content 0 (finditer content)"
    unfolding finditer_def by (rule finditer_from_matches)
  have p: "parse_content file_path content = concat (map (seg_cells file_path content) (scan content))"
    by (simp add: scan_def parse_content_def parse_loop_segments)
  have l: "locator_lines (parse_content file_path content) =
           map (\<lambda>seg. line_at content (seg_offset seg)) (filter yields_unit (scan content))"
    unfolding p by (rule locator_lines_segments)
  have "sorted (map seg_offset (scan content))"
    unfolding scan_def using raw_segments_offsets[OF m] by simp
  then have s: "sorted (locator_lines (parse_content file_path content))"
    unfolding l by (rule sorted_lines_of_segments)
  have n: "length (locator_lines (parse_content file_path content)) = length (parse_content file_path content)"
    unfolding l unfolding p by (simp add: length_seg_cells)
  from l s n show ?thesis by (simp add: line_at_def)
qed

text \<open>
  C4. With Setup skipped and Table-of-Contents requested, a document of one heading and
  one Python block gives a notebook whose first cell is the heading and whose second cell
  is the Table-of-Contents cell: \<open>add_toc_cell\<close>, documented as adding the cell after
  setup, inserts at the fixed index 1 whether Setup was added or not. With both requested,
  Setup is first and Table-of-Contents second, in front of the units in their order.
\<close>

theorem toc_without_setup_lands_second:
  "cells (convert True False ''README.md'' ''# Title\<newline>```python\<newline>x = 1\<newline>```'') =
     [prose_cell ''README.md'' 1 ''# Title'', toc_cell, python_cell ''README.md'' 2 ''x = 1''] \<and>
   cells (assemble False False units) = setup_cell # toc_cell # units"
proof (rule conjI)
  show "cells (convert True False ''README.md'' ''# Title\<newline>```python\<newline>x = 1\<newline>```'') =
     [prose_cell ''README.md'' 1 ''# Title'', toc_cell, python_cell ''README.md'' 2 ''x = 1'']"
    by code_simp
next
  show "cells (assemble False False units) = setup_cell # toc_cell # units"
    by (simp add: assemble_def create_notebook_def add_setup_cell_def add_toc_cell_def
          list_insert_def)
qed

text \<open>
  C5, as amended. A block whose tag is \<open>python\<close> or \<open>py\<close> in lower case is Markdown
  exactly when its body contains the three characters \<open>>>>\<close> anywhere, at the start of a
  line or not, and Code otherwise.
\<close>

theorem python_block_kind:
  assumes "lower tag \<in> {''python'', ''py''}"
  shows "(classify tag body = Markdown \<longleftrightarrow> str_in ''>>>'' body) \<and>
         (classify tag body = Code \<longleftrightarrow> \<not> str_in ''>>>'' body)"
  using assms by (simp add: classify_def python_tags_def)

text \<open>C5, as amended, at the tag \<open>Python\<close> with a transcript and with plain code.\<close>

theorem python_block_kind_witness:
  "lower ''Python'' \<in> {''python'', ''py''} \<and>
   classify ''Python'' ''>>> 1 + 1'' = Markdown \<and> classify ''Python'' ''x = 1 + 1'' = Code"
proof -
  have h: "lower ''Python'' \<in> {''python'', ''py''}"
    by (simp add: lower_def lower_char_def uppercase_def lowercase_def)
  have a: "str_in ''>>>'' ''>>> 1 + 1''" by simp
  have b: "\<not> str_in ''>>>'' ''x = 1 + 1''" by simp
  from python_block_kind[OF h, of "''>>> 1 + 1''"] python_block_kind[OF h, of "''x = 1 + 1''"] h a b
  show ?thesis by simp
qed

text \<open>
  C5, as stated, fails: a body whose only \<open>>>>\<close> is inside a comment, where no line
  begins with it, is Markdown.
\<close>

theorem prompt_inside_line_counterexample:
  "lower ''python'' \<in> {''python'', ''py''} \<and>
   \<not> spec_has_prompt_line ''print(1)  # not a >>> prompt'' \<and>
   classify ''python'' ''print(1)  # not a >>> prompt'' = Markdown"
  by (simp add: classify_def python_tags_def lower_def lower_char_def uppercase_def lowercase_def
        spec_has_prompt_line_def NL_def)

text \<open>
  C6. On a body with a prompt line, a blank line and an indented line without prompt,
  \<open>validate_python_syntax\<close> asks the parser about a text in which the prompt is removed,
  the blank line is gone and the indented line has lost its indentation: every line is
  trimmed before the prompts are looked for, and the trimmed line is what is kept. The
  text with only the prompt removed is the one the specification describes.
\<close>

theorem indented_line_loses_indentation:
  "parser_input ''>>> pass\<newline>\<newline>if True:\<newline>    pass'' = ''pass\<newline>if True:\<newline>pass'' \<and>
   spec_parser_input ''>>> pass\<newline>\<newline>if True:\<newline>    pass'' =
     ''pass\<newline>\<newline>if True:\<newline>    pass'' \<and>
   validate_python_syntax ast_parse ''>>> pass\<newline>\<newline>if True:\<newline>    pass'' context =
     (case ast_parse ''pass\<newline>if True:\<newline>pass'' of
        None \<Rightarrow> (True, [])
      | Some (SyntaxError msg lineno) \<Rightarrow>
          (False, ''Syntax error in '' @ context @ '': '' @ msg @ '' at line '' @ str_nat lineno)
      | Some (OtherException e) \<Rightarrow> (False, ''Unexpected error in '' @ context @ '': '' @ e))"
proof -
  have p: "parser_input ''>>> pass\<newline>\<newline>if True:\<newline>    pass'' = ''pass\<newline>if True:\<newline>pass''"
    by code_simp
  have q: "spec_parser_input ''>>> pass\<newline>\<newline>if True:\<newline>    pass'' =
     ''pass\<newline>\<newline>if True:\<newline>    pass''"
    by code_simp
  have r: "strip ''pass\<newline>if True:\<newline>pass'' \<noteq> []"
    by code_simp
  show ?thesis
    using r by (simp add: validate_python_syntax_def p q Let_def)
qed

text \<open>
  C7. The document with the single block tagged \<open>bash\<close> and the body
  \<open>pip install requests\<close> gives one shell cell. Its first source line is the anchor
  comment, not \<open>%%bash\<close>, so \<open>process_shell_commands\<close> leaves it as it is and no
  package-install comment is added; the same cell without the anchor line gets it.
\<close>

theorem bash_block_not_enhanced:
  "process_shell_commands
     (parse_content ''README.md'' ''```bash\<newline>pip install requests\<newline>```'') =
   [\<lparr>cell_type = ''code'', execution_count = Some None,
     metadata = Some \<lparr>source_file = ''README.md'', source_line = 1,
                       source_anchor = ''README.md:1''\<rparr>,
     outputs = Some [],
     source = [''# [source:README.md:1]\<newline>'', ''%%bash\<newline>'',
               ''pip install requests\<newline>'']\<rparr>] \<and>
   source (process_cell
     \<lparr>cell_type = ''code'', execution_count = Some None, metadata = None, outputs = Some [],
      source = [''%%bash\<newline>'', ''pip install requests\<newline>'']\<rparr>) =
   [''%%bash\<newline>'', ''# Install Python package\<newline>'', ''pip install requests\<newline>'',
    ''\<newline># Note: If this command fails, you may need to install dependencies or adjust paths'']"
  by code_simp

text \<open>
  C8. The source of the cell of a fenced block: for a Code unit the anchor comment, the
  synthesized lines, then the lines of the body; for a Shell unit the anchor comment,
  \<open>%%bash\<close> and the lines of the body; for a Markdown unit the anchor comment and the
  fenced text; so synthesized lines are in Code units only. The line \<open>import m\<close> is among
  the synthesized lines exactly when the body contains \<open>m.\<close> and does not contain
  \<open>import m\<close>, for \<open>m\<close> one of \<open>os\<close>, \<open>sys\<close>, \<open>requests\<close>, \<open>inspect\<close>. The document is an
  argument of the converter and is not changed by it.
\<close>

theorem import_insertion:
  "source (block_cell file_path line tag body) =
     (case classify tag body of
        Code \<Rightarrow>
          (''# [source:'' @ anchor_of file_path line @ '']'' @ [NL])
          # import_lines body
          @ (if str_in ''pkg_resources'' body then wrap_pkg_lines False (split_nl body)
             else nl_lines body)
      | Shell \<Rightarrow>
          [''# [source:'' @ anchor_of file_path line @ '']'' @ [NL], ''%%bash\<newline>'']
          @ nl_lines body
      | Markdown \<Rightarrow>
          [''<!-- source:'' @ anchor_of file_path line @ '' -->'' @ [NL],
           ''```'' @ (if lower tag \<in> {''python'', ''py''} then ''python'' else tag) @ [NL]
             @ body @ [NL] @ ''```'']) \<and>
   ((''import os\<newline>'' \<in> set (import_lines body)) =
      (str_in ''os.'' body \<and> \<not> str_in ''import os'' body)) \<and>
   ((''import sys\<newline>'' \<in> set (import_lines body)) =
      (str_in ''sys.'' body \<and> \<not> str_in ''import sys'' body)) \<and>
   ((''import requests\<newline>'' \<in> set (import_lines body)) =
      (str_in ''requests.'' body \<and> \<not> str_in ''import requests'' body)) \<and>
   ((''import inspect\<newline>'' \<in> set (import_lines body)) =
      (str_in ''inspect.'' body \<and> \<not> str_in ''import inspect'' body))"
  using source_block_cell [of file_path line tag body]
  by (simp only: import_lines_os import_lines_sys import_lines_requests import_lines_inspect)

text \<open>
  C9. For a notebook file that can be loaded, the validator returns a flag and raises
  nothing: the flag is true when the run of the filtered notebook raises no exception and
  false when it raises one, which is then printed.
\<close>

theorem validate_notebook_flag:
  assumes "load notebook_path = Some nb"
  shows "validate_notebook load ep_preprocess notebook_path =
           Inr ([Validating notebook_path,
                 Cell_Counts (length nb) (length (filtered_cells nb)),
                 (case ep_preprocess (filtered_cells nb) of
                    None \<Rightarrow> Executed_Successfully
                  | Some e \<Rightarrow> Execution_Failed e)],
                ep_preprocess (filtered_cells nb) = None)"
  using assms by (simp add: validate_notebook_def Let_def split: option.splits)

text \<open>C9 at a notebook of one cell whose run fails.\<close>

theorem validate_notebook_flag_witness:
  "validate_notebook
     (\<lambda>p. if p = ''nb.ipynb''
          then Some [\<lparr>nb_cell_type = ''code'', nb_source = Source_Str ''1/0'',
                       nb_source_anchor = None\<rparr>]
          else None)
     (\<lambda>cs. Some (Exception ''CellExecutionError'')) ''nb.ipynb'' =
   Inr ([Validating ''nb.ipynb'', Cell_Counts 1 1,
         Execution_Failed (Exception ''CellExecutionError'')], False)"
proof -
  let ?c = "\<lparr>nb_cell_type = ''code'', nb_source = Source_Str ''1/0'', nb_source_anchor = None\<rparr>"
  let ?load = "\<lambda>p. if p = ''nb.ipynb'' then Some [?c] else None"
  have h: "?load ''nb.ipynb'' = Some [?c]" by simp
  have f: "filtered_cells [?c] = [?c]"
    by (simp add: filtered_cells_def is_skipped_def source_has_def is_problematic_def)
  show ?thesis
    using h validate_notebook_flag [of ?load "''nb.ipynb''" "[?c]"
                 "\<lambda>cs. Some (Exception ''CellExecutionError'')"]
    by (simp add: f)
qed

text \<open>
  C10. \<open>process_shell_commands\<close> returns as many cells as it is given, in the same order,
  each with the \<open>cell_type\<close>, \<open>metadata\<close>, \<open>execution_count\<close> and \<open>outputs\<close> it had; a
  cell that is not a code cell whose first source line starts with \<open>%%bash\<close> is returned
  unchanged, its source included.
\<close>

theorem process_shell_commands_frame:
  "length (process_shell_commands cs) = length cs \<and>
   map cell_type (process_shell_commands cs) = map cell_type cs \<and>
   map metadata (process_shell_commands cs) = map metadata cs \<and>
   map execution_count (process_shell_commands cs) = map execution_count cs \<and>
   map outputs (process_shell_commands cs) = map outputs cs \<and>
   (\<forall>i < length cs.
      \<not> (cell_type (cs ! i) = ''code'' \<and> source (cs ! i) \<noteq> []
         \<and> startswith (hd (source (cs ! i))) ''%%bash'')
      \<longrightarrow> process_shell_commands cs ! i = cs ! i)"
  by (simp add: process_shell_commands_def process_cell_def is_bash_cell_iff comp_def)

text \<open>C10 at a shell cell followed by a prose cell: the prose cell comes back as it was.\<close>

theorem process_shell_commands_frame_witness:
  "process_shell_commands
     [shell_cell ''README.md'' 1 ''pip install requests'', prose_cell ''README.md'' 4 ''Done'']
   ! 1 = prose_cell ''README.md'' 4 ''Done''"
proof -
  let ?cs = "[shell_cell ''README.md'' 1 ''pip install requests'', prose_cell ''README.md'' 4 ''Done'']"
  have "(1::nat) < length ?cs" by simp
  moreover have "\<not> (cell_type (?cs ! 1) = ''code'' \<and> source (?cs ! 1) \<noteq> []
         \<and> startswith (hd (source (?cs ! 1))) ''%%bash'')"
    by (simp add: prose_cell_def)
  ultimately have "process_shell_commands ?cs ! 1 = ?cs ! 1"
    using process_shell_commands_frame[of ?cs] by blast
  then show ?thesis by simp
qed

end
